theory Spec2Isabelle
  imports Main "HOL-Library.Word" "HOL-Library.Sublist"
begin

section \<open>The query service of the two demo servers\<close>

text \<open>
  The repository holds two demo query servers with the same shape. The first
  (\<^verbatim>\<open>src/unnamed/part_000\<close>) keeps each trace as a flat list of spans; its
  definitions carry the suffix \<open>_flat\<close>. The second
  (\<^verbatim>\<open>src/cmd/api_v2_demo/main.go\<close>) keeps each trace as OTLP
  resource/scope/span data; its definitions carry the suffix \<open>_otlp\<close>. Both
  programs call their functions \<^verbatim>\<open>GetTrace\<close>, \<^verbatim>\<open>FindTraces\<close>,
  \<^verbatim>\<open>GetServices\<close> and \<^verbatim>\<open>GetOperations\<close>.

  Conventions of the embedding.
  \<^item> A field \<^verbatim>\<open>F\<close> of a Go struct \<^verbatim>\<open>S\<close> is the record field \<open>S_F\<close>.
  \<^item> A pointer that the code tests against \<^verbatim>\<open>nil\<close>, or that a request can
    leave unset, is an \<open>option\<close>. The elements of the slices kept in the store
    are dereferenced by the code without a test; they are taken as present.
  \<^item> A method with the receiver \<^verbatim>\<open>q *QueryService\<close> takes the service state
    and returns it next to its result.
  \<^item> Logging is left out.
\<close>

subsection \<open>Errors and the response stream\<close>

text \<open>
  \<open>TransportError\<close> is an error value returned by \<^verbatim>\<open>stream.Send\<close>.
  \<open>NilDereference\<close> stands for the run-time panic of reading a field through
  a nil pointer: the handler does not return normally.
\<close>

datatype error = TransportError string | NilDereference

text \<open>
  The stream is the collaborator that the handlers send chunks to. Its state is
  the list of chunks delivered so far; \<open>transport\<close> decides, from that history
  and the chunk offered, whether a send succeeds. A failed send delivers
  nothing.
\<close>

record 'c stream =
  sent :: "'c list"
  transport :: "'c list \<Rightarrow> 'c \<Rightarrow> error option"

definition Send :: "'c \<Rightarrow> 'c stream \<Rightarrow> error option \<times> 'c stream" where
  "Send c st =
     (case transport st (sent st) c of
        None \<Rightarrow> (None, st\<lparr>sent := sent st @ [c]\<rparr>)
      | Some err \<Rightarrow> (Some err, st))"

subsection \<open>The service state\<close>

text \<open>
  \<^verbatim>\<open>type QueryService struct { traces map[string]...; services []string;
  operations map[string][]string }\<close>. The two programs differ in the type of a
  stored trace only, which is the parameter \<open>'t\<close>.
\<close>

record 't QueryService =
  traces :: "string \<rightharpoonup> 't"
  services :: "string list"
  operations :: "string \<rightharpoonup> string list"

definition NewQueryService :: "'t QueryService" where
  "NewQueryService = \<lparr>traces = Map.empty, services = [], operations = Map.empty\<rparr>"

text \<open>
  The store write of \<^verbatim>\<open>createSampleTrace1\<close> and \<^verbatim>\<open>createSampleTrace2\<close>:
  \<^verbatim>\<open>q.traces[traceID] = traces\<close>.
\<close>

definition Put :: "string \<Rightarrow> 't \<Rightarrow> 't QueryService \<Rightarrow> 't QueryService" where
  "Put traceID t q = q\<lparr>traces := (traces q)(traceID \<mapsto> t)\<rparr>"

text \<open>
  \<^verbatim>\<open>for traceID, spans := range q.traces\<close> visits every entry of the map once,
  in an order that the Go run time chooses. The order chosen is the key list
  \<open>ks\<close>; \<open>iteration_order\<close> says that it is one the run time can choose.
\<close>

fun range_map :: "'k list \<Rightarrow> ('k \<rightharpoonup> 'v) \<Rightarrow> ('k \<times> 'v) list" where
  "range_map [] m = []"
| "range_map (k # ks) m =
     (case m k of
        None \<Rightarrow> range_map ks m
      | Some v \<Rightarrow> (k, v) # range_map ks m)"

definition iteration_order :: "'k list \<Rightarrow> ('k \<rightharpoonup> 'v) \<Rightarrow> bool" where
  "iteration_order ks m = (distinct ks \<and> set ks = dom m)"

subsection \<open>Requests and responses\<close>

record GetTraceRequest =
  GetTraceRequest_TraceId :: string

record TraceQueryParameters =
  TraceQueryParameters_ServiceName :: string
  TraceQueryParameters_OperationName :: string
  TraceQueryParameters_Attributes :: "string \<rightharpoonup> string"

record FindTracesRequest =
  FindTracesRequest_Query :: "TraceQueryParameters option"

record GetServicesResponse =
  GetServicesResponse_Services :: "string list"

record GetOperationsRequest =
  GetOperationsRequest_Service :: string
  GetOperationsRequest_SpanKind :: string

record Operation =
  Operation_Name :: string
  Operation_SpanKind :: string

record GetOperationsResponse =
  GetOperationsResponse_Operations :: "Operation list"

record DependencyLink =
  DependencyLink_Parent :: string
  DependencyLink_Child :: string
  DependencyLink_CallCount :: "64 word"

record GetDependenciesResponse =
  GetDependenciesResponse_Dependencies :: "DependencyLink list"

subsection \<open>The flat span list (\<^verbatim>\<open>src/unnamed/part_000\<close>)\<close>

text \<open>
  The span type is \<^verbatim>\<open>model.Span\<close> of the package \<^verbatim>\<open>model/v1\<close>; the
  records have the fields that \<^verbatim>\<open>createSampleTrace2\<close> fills in.
  \<^verbatim>\<open>time.Time\<close> is read as nanoseconds since the epoch.
\<close>

datatype model_KeyValue = model_String string string | model_Int64 string "64 word"

datatype SpanRefType = ChildOf | FollowsFrom

record TraceID =
  TraceID_High :: "64 word"
  TraceID_Low :: "64 word"

record SpanRef =
  SpanRef_TraceID :: TraceID
  SpanRef_SpanID :: "64 word"
  SpanRef_RefType :: SpanRefType

record Process =
  Process_ServiceName :: string
  Process_Tags :: "model_KeyValue list"

record Span =
  Span_TraceID :: TraceID
  Span_SpanID :: "64 word"
  Span_OperationName :: string
  Span_References :: "SpanRef list"
  Span_StartTime :: int
  Span_Duration :: "64 word"
  Span_Process :: "Process option"
  Span_Tags :: "model_KeyValue list"

record SpansResponseChunk =
  SpansResponseChunk_Spans :: "Span list"

text \<open>\<^verbatim>\<open>GetTrace\<close>, lines 36 to 55.\<close>

definition GetTrace_flat ::
  "Span list QueryService \<Rightarrow> GetTraceRequest \<Rightarrow> SpansResponseChunk stream
     \<Rightarrow> (error option \<times> SpansResponseChunk stream) \<times> Span list QueryService" where
  "GetTrace_flat q req st =
     (case traces q (GetTraceRequest_TraceId req) of
        Some spans \<Rightarrow>
          (case Send \<lparr>SpansResponseChunk_Spans = spans\<rparr> st of
             (Some err, st') \<Rightarrow> ((Some err, st'), q)
           | (None, st') \<Rightarrow> ((None, st'), q))
      | None \<Rightarrow> ((None, st), q))"

text \<open>
  The inner loop of \<^verbatim>\<open>FindTraces\<close>, lines 69 to 77: the value of
  \<^verbatim>\<open>matched\<close> when the loop over the spans of one trace ends.
\<close>

fun match_spans :: "TraceQueryParameters \<Rightarrow> Span list \<Rightarrow> bool" where
  "match_spans qp [] = False"
| "match_spans qp (span # spans) =
     (case Span_Process span of
        None \<Rightarrow> match_spans qp spans
      | Some p \<Rightarrow>
          if Process_ServiceName p = TraceQueryParameters_ServiceName qp
          then (if TraceQueryParameters_OperationName qp = []
                   \<or> Span_OperationName span = TraceQueryParameters_OperationName qp
                then True
                else match_spans qp spans)
          else match_spans qp spans)"

text \<open>The outer loop of \<^verbatim>\<open>FindTraces\<close>, lines 65 to 89, over the entries visited.\<close>

fun FindTraces_loop_flat ::
  "TraceQueryParameters \<Rightarrow> (string \<times> Span list) list \<Rightarrow> SpansResponseChunk stream
     \<Rightarrow> error option \<times> SpansResponseChunk stream" where
  "FindTraces_loop_flat qp [] st = (None, st)"
| "FindTraces_loop_flat qp ((traceID, spans) # rest) st =
     (if match_spans qp spans
      then (case Send \<lparr>SpansResponseChunk_Spans = spans\<rparr> st of
              (Some err, st') \<Rightarrow> (Some err, st')
            | (None, st') \<Rightarrow> FindTraces_loop_flat qp rest st')
      else FindTraces_loop_flat qp rest st)"

text \<open>
  \<^verbatim>\<open>FindTraces\<close>, lines 58 to 92. The first statement reads
  \<^verbatim>\<open>req.Query.ServiceName\<close>, which panics when the request has no query.
\<close>

definition FindTraces_flat ::
  "Span list QueryService \<Rightarrow> FindTracesRequest \<Rightarrow> string list \<Rightarrow> SpansResponseChunk stream
     \<Rightarrow> (error option \<times> SpansResponseChunk stream) \<times> Span list QueryService" where
  "FindTraces_flat q req ks st =
     (case FindTracesRequest_Query req of
        None \<Rightarrow> ((Some NilDereference, st), q)
      | Some qp \<Rightarrow> (FindTraces_loop_flat qp (range_map ks (traces q)) st, q))"

text \<open>\<^verbatim>\<open>GetServices\<close>, lines 95 to 102, the same in both programs.\<close>

definition GetServices ::
  "'t QueryService \<Rightarrow> (error + GetServicesResponse) \<times> 't QueryService" where
  "GetServices q = (Inr \<lparr>GetServicesResponse_Services = services q\<rparr>, q)"

text \<open>
  \<^verbatim>\<open>GetOperations\<close>, lines 105 to 123. The loop appends one operation for
  each stored name.
\<close>

definition GetOperations_flat ::
  "'t QueryService \<Rightarrow> GetOperationsRequest
     \<Rightarrow> (error + GetOperationsResponse) \<times> 't QueryService" where
  "GetOperations_flat q req =
     (let operations0 = [];
          operations1 =
            (case operations q (GetOperationsRequest_Service req) of
               Some ops \<Rightarrow>
                 foldl (\<lambda>acc opName. acc @
                          [\<lparr>Operation_Name = opName,
                            Operation_SpanKind = GetOperationsRequest_SpanKind req\<rparr>])
                       operations0 ops
             | None \<Rightarrow> operations0)
      in (Inr \<lparr>GetOperationsResponse_Operations = operations1\<rparr>, q))"

text \<open>\<^verbatim>\<open>GetDependencies\<close>, lines 126 to 147.\<close>

definition GetDependencies ::
  "'t QueryService \<Rightarrow> (error + GetDependenciesResponse) \<times> 't QueryService" where
  "GetDependencies q =
     (let dependencies =
            [\<lparr>DependencyLink_Parent = ''frontend'', DependencyLink_Child = ''auth-service'',
              DependencyLink_CallCount = 10\<rparr>,
             \<lparr>DependencyLink_Parent = ''auth-service'', DependencyLink_Child = ''database'',
              DependencyLink_CallCount = 8\<rparr>]
      in (Inr \<lparr>GetDependenciesResponse_Dependencies = dependencies\<rparr>, q))"

subsection \<open>The OTLP hierarchy (\<^verbatim>\<open>src/cmd/api_v2_demo/main.go\<close>)\<close>

text \<open>
  The OTLP messages, with the fields that the program reads or fills in. Of
  the alternatives of \<^verbatim>\<open>AnyValue\<close> the program builds the string and the
  integer one; every alternative but the string one reads as the empty string
  through \<^verbatim>\<open>GetStringValue\<close>, as a nil \<^verbatim>\<open>*AnyValue\<close> does.
\<close>

datatype AnyValue_Value = AnyValue_StringValue string | AnyValue_IntValue "64 word"

record AnyValue =
  AnyValue_Value :: "AnyValue_Value option"

record KeyValue =
  KeyValue_Key :: string
  KeyValue_Value :: "AnyValue option"

record Resource =
  Resource_Attributes :: "KeyValue list"

datatype SpanKind = SPAN_KIND_UNSPECIFIED | SPAN_KIND_INTERNAL | SPAN_KIND_SERVER
  | SPAN_KIND_CLIENT | SPAN_KIND_PRODUCER | SPAN_KIND_CONSUMER

record otlp_Span =
  otlp_Span_TraceId :: "8 word list"
  otlp_Span_SpanId :: "8 word list"
  otlp_Span_ParentSpanId :: "8 word list"
  otlp_Span_Name :: string
  otlp_Span_StartTimeUnixNano :: "64 word"
  otlp_Span_EndTimeUnixNano :: "64 word"
  otlp_Span_Kind :: SpanKind
  otlp_Span_Attributes :: "KeyValue list"

record ScopeSpans =
  ScopeSpans_Spans :: "otlp_Span list"

record ResourceSpans =
  ResourceSpans_Resource :: "Resource option"
  ResourceSpans_ScopeSpans :: "ScopeSpans list"

record TracesData =
  TracesData_ResourceSpans :: "ResourceSpans list"

text \<open>
  \<^verbatim>\<open>stringAttr\<close> and \<^verbatim>\<open>intAttr\<close>, lines 156 to 177.
\<close>

definition stringAttr :: "string \<Rightarrow> string \<Rightarrow> KeyValue" where
  "stringAttr key v =
     \<lparr>KeyValue_Key = key,
      KeyValue_Value = Some \<lparr>AnyValue_Value = Some (AnyValue_StringValue v)\<rparr>\<rparr>"

definition intAttr :: "string \<Rightarrow> 64 word \<Rightarrow> KeyValue" where
  "intAttr key v =
     \<lparr>KeyValue_Key = key,
      KeyValue_Value = Some \<lparr>AnyValue_Value = Some (AnyValue_IntValue v)\<rparr>\<rparr>"

text \<open>
  The generated getter \<^verbatim>\<open>(*AnyValue).GetStringValue\<close>: the string of a string
  value, the empty string for a nil receiver and for every other value.
\<close>

fun GetStringValue :: "AnyValue option \<Rightarrow> string" where
  "GetStringValue None = []"
| "GetStringValue (Some x) =
     (case AnyValue_Value x of
        Some (AnyValue_StringValue s) \<Rightarrow> s
      | _ \<Rightarrow> [])"

text \<open>\<^verbatim>\<open>getServiceName\<close>, lines 141 to 153: its loop, then the function.\<close>

fun getServiceName_loop :: "KeyValue list \<Rightarrow> string" where
  "getServiceName_loop [] = []"
| "getServiceName_loop (attr # attrs) =
     (if KeyValue_Key attr = ''service.name''
      then GetStringValue (KeyValue_Value attr)
      else getServiceName_loop attrs)"

fun getServiceName :: "Resource option \<Rightarrow> string" where
  "getServiceName None = []"
| "getServiceName (Some resource) = getServiceName_loop (Resource_Attributes resource)"

text \<open>\<^verbatim>\<open>GetTrace\<close>, lines 38 to 56.\<close>

definition GetTrace_otlp ::
  "TracesData QueryService \<Rightarrow> GetTraceRequest \<Rightarrow> TracesData stream
     \<Rightarrow> (error option \<times> TracesData stream) \<times> TracesData QueryService" where
  "GetTrace_otlp q req st =
     (case traces q (GetTraceRequest_TraceId req) of
        Some td \<Rightarrow>
          (case Send \<lparr>TracesData_ResourceSpans = TracesData_ResourceSpans td\<rparr> st of
             (Some err, st') \<Rightarrow> ((Some err, st'), q)
           | (None, st') \<Rightarrow> ((None, st'), q))
      | None \<Rightarrow> ((None, st), q))"

text \<open>
  The three nested loops of \<^verbatim>\<open>FindTraces\<close>, lines 68 to 93, innermost first:
  each gives the value of \<^verbatim>\<open>matched\<close> when it ends.
\<close>

fun match_span_names :: "string \<Rightarrow> otlp_Span list \<Rightarrow> bool" where
  "match_span_names operationName [] = False"
| "match_span_names operationName (span # spans) =
     (if otlp_Span_Name span = operationName then True
      else match_span_names operationName spans)"

fun match_scope_spans :: "string \<Rightarrow> ScopeSpans list \<Rightarrow> bool" where
  "match_scope_spans operationName [] = False"
| "match_scope_spans operationName (ss # sss) =
     (if match_span_names operationName (ScopeSpans_Spans ss) then True
      else match_scope_spans operationName sss)"

fun match_resource_spans :: "TraceQueryParameters \<Rightarrow> ResourceSpans list \<Rightarrow> bool" where
  "match_resource_spans qp [] = False"
| "match_resource_spans qp (rs # rss) =
     (if getServiceName (ResourceSpans_Resource rs) = TraceQueryParameters_ServiceName qp
      then (if TraceQueryParameters_OperationName qp = [] then True
            else if match_scope_spans (TraceQueryParameters_OperationName qp)
                      (ResourceSpans_ScopeSpans rs)
            then True
            else match_resource_spans qp rss)
      else match_resource_spans qp rss)"

text \<open>The loop over the store of \<^verbatim>\<open>FindTraces\<close>, lines 64 to 104.\<close>

fun FindTraces_loop_otlp ::
  "TraceQueryParameters \<Rightarrow> (string \<times> TracesData) list \<Rightarrow> TracesData stream
     \<Rightarrow> error option \<times> TracesData stream" where
  "FindTraces_loop_otlp qp [] st = (None, st)"
| "FindTraces_loop_otlp qp ((traceID, td) # rest) st =
     (if match_resource_spans qp (TracesData_ResourceSpans td)
      then (case Send \<lparr>TracesData_ResourceSpans = TracesData_ResourceSpans td\<rparr> st of
              (Some err, st') \<Rightarrow> (Some err, st')
            | (None, st') \<Rightarrow> FindTraces_loop_otlp qp rest st')
      else FindTraces_loop_otlp qp rest st)"

text \<open>\<^verbatim>\<open>FindTraces\<close>, lines 59 to 107.\<close>

definition FindTraces_otlp ::
  "TracesData QueryService \<Rightarrow> FindTracesRequest \<Rightarrow> string list \<Rightarrow> TracesData stream
     \<Rightarrow> (error option \<times> TracesData stream) \<times> TracesData QueryService" where
  "FindTraces_otlp q req ks st =
     (case FindTracesRequest_Query req of
        None \<Rightarrow> ((Some NilDereference, st), q)
      | Some qp \<Rightarrow> (FindTraces_loop_otlp qp (range_map ks (traces q)) st, q))"

text \<open>
  \<^verbatim>\<open>GetOperations\<close>, lines 120 to 138: the operation is built with its name
  only, so its span kind is Go's zero value, the empty string.
\<close>

definition GetOperations_otlp ::
  "'t QueryService \<Rightarrow> GetOperationsRequest
     \<Rightarrow> (error + GetOperationsResponse) \<times> 't QueryService" where
  "GetOperations_otlp q req =
     (let operations0 = [];
          operations1 =
            (case operations q (GetOperationsRequest_Service req) of
               Some ops \<Rightarrow>
                 foldl (\<lambda>acc op. acc @ [\<lparr>Operation_Name = op, Operation_SpanKind = []\<rparr>])
                       operations0 ops
             | None \<Rightarrow> operations0)
      in (Inr \<lparr>GetOperationsResponse_Operations = operations1\<rparr>, q))"

text \<open>
  \<^verbatim>\<open>createSampleTrace1\<close>, \<^verbatim>\<open>createSampleTrace2\<close> and \<^verbatim>\<open>initDemoData\<close>,
  lines 180 to 374. \<open>now\<close> is the reading of \<^verbatim>\<open>time.Now()\<close> in nanoseconds;
  \<^verbatim>\<open>[]byte(traceID)[:16]\<close> is the first sixteen bytes of the identifier's text.
\<close>

definition trace_id_bytes :: "string \<Rightarrow> 8 word list" where
  "trace_id_bytes traceID = map (\<lambda>c. of_nat (of_char c)) (take 16 traceID)"

definition createSampleTrace1_otlp :: "64 word \<Rightarrow> TracesData QueryService \<Rightarrow> TracesData QueryService" where
  "createSampleTrace1_otlp now q =
     (let traceID = ''1234567890abcdef1234567890abcdef'';
          startTimeNano = now;
          td = \<lparr>TracesData_ResourceSpans =
            [\<lparr>ResourceSpans_Resource = Some \<lparr>Resource_Attributes =
                 [stringAttr ''service.name'' ''frontend'', stringAttr ''hostname'' ''frontend-01'']\<rparr>,
              ResourceSpans_ScopeSpans = [\<lparr>ScopeSpans_Spans =
                 [\<lparr>otlp_Span_TraceId = trace_id_bytes traceID,
                   otlp_Span_SpanId = replicate 8 0x11,
                   otlp_Span_ParentSpanId = [],
                   otlp_Span_Name = ''HTTP GET /api/users'',
                   otlp_Span_StartTimeUnixNano = startTimeNano,
                   otlp_Span_EndTimeUnixNano = startTimeNano + 120 * 1000000,
                   otlp_Span_Kind = SPAN_KIND_SERVER,
                   otlp_Span_Attributes =
                     [stringAttr ''http.method'' ''GET'', stringAttr ''http.url'' ''/api/users'',
                      intAttr ''http.status_code'' 200]\<rparr>]\<rparr>]\<rparr>,
             \<lparr>ResourceSpans_Resource = Some \<lparr>Resource_Attributes =
                 [stringAttr ''service.name'' ''auth-service'', stringAttr ''hostname'' ''auth-01'']\<rparr>,
              ResourceSpans_ScopeSpans = [\<lparr>ScopeSpans_Spans =
                 [\<lparr>otlp_Span_TraceId = trace_id_bytes traceID,
                   otlp_Span_SpanId = replicate 8 0x22,
                   otlp_Span_ParentSpanId = replicate 8 0x11,
                   otlp_Span_Name = ''authenticate'',
                   otlp_Span_StartTimeUnixNano = startTimeNano + 10 * 1000000,
                   otlp_Span_EndTimeUnixNano = startTimeNano + 60 * 1000000,
                   otlp_Span_Kind = SPAN_KIND_SERVER,
                   otlp_Span_Attributes = [stringAttr ''user.id'' ''user123'']\<rparr>]\<rparr>]\<rparr>,
             \<lparr>ResourceSpans_Resource = Some \<lparr>Resource_Attributes =
                 [stringAttr ''service.name'' ''database'', stringAttr ''hostname'' ''db-01'']\<rparr>,
              ResourceSpans_ScopeSpans = [\<lparr>ScopeSpans_Spans =
                 [\<lparr>otlp_Span_TraceId = trace_id_bytes traceID,
                   otlp_Span_SpanId = replicate 8 0x33,
                   otlp_Span_ParentSpanId = replicate 8 0x22,
                   otlp_Span_Name = ''SELECT users'',
                   otlp_Span_StartTimeUnixNano = startTimeNano + 20 * 1000000,
                   otlp_Span_EndTimeUnixNano = startTimeNano + 50 * 1000000,
                   otlp_Span_Kind = SPAN_KIND_CLIENT,
                   otlp_Span_Attributes =
                     [stringAttr ''db.type'' ''postgresql'',
                      stringAttr ''db.statement'' ''SELECT * FROM users WHERE id = $1'']\<rparr>]\<rparr>]\<rparr>]\<rparr>
      in q\<lparr>traces := (traces q)(traceID \<mapsto> td)\<rparr>)"

definition createSampleTrace2_otlp :: "64 word \<Rightarrow> TracesData QueryService \<Rightarrow> TracesData QueryService" where
  "createSampleTrace2_otlp now q =
     (let traceID = ''fedcba0987654321fedcba0987654321'';
          startTimeNano = now - 5 * 60 * 1000000000;
          td = \<lparr>TracesData_ResourceSpans =
            [\<lparr>ResourceSpans_Resource = Some \<lparr>Resource_Attributes =
                 [stringAttr ''service.name'' ''frontend'', stringAttr ''hostname'' ''frontend-01'']\<rparr>,
              ResourceSpans_ScopeSpans = [\<lparr>ScopeSpans_Spans =
                 [\<lparr>otlp_Span_TraceId = trace_id_bytes traceID,
                   otlp_Span_SpanId = replicate 8 0x44,
                   otlp_Span_ParentSpanId = [],
                   otlp_Span_Name = ''HTTP POST /api/login'',
                   otlp_Span_StartTimeUnixNano = startTimeNano,
                   otlp_Span_EndTimeUnixNano = startTimeNano + 200 * 1000000,
                   otlp_Span_Kind = SPAN_KIND_SERVER,
                   otlp_Span_Attributes =
                     [stringAttr ''http.method'' ''POST'', stringAttr ''http.url'' ''/api/login'',
                      intAttr ''http.status_code'' 200]\<rparr>]\<rparr>]\<rparr>,
             \<lparr>ResourceSpans_Resource = Some \<lparr>Resource_Attributes =
                 [stringAttr ''service.name'' ''auth-service'']\<rparr>,
              ResourceSpans_ScopeSpans = [\<lparr>ScopeSpans_Spans =
                 [\<lparr>otlp_Span_TraceId = trace_id_bytes traceID,
                   otlp_Span_SpanId = replicate 8 0x55,
                   otlp_Span_ParentSpanId = replicate 8 0x44,
                   otlp_Span_Name = ''validate-token'',
                   otlp_Span_StartTimeUnixNano = startTimeNano + 15 * 1000000,
                   otlp_Span_EndTimeUnixNano = startTimeNano + 95 * 1000000,
                   otlp_Span_Kind = SPAN_KIND_SERVER,
                   otlp_Span_Attributes = [stringAttr ''user.email'' ''user@example.com'']\<rparr>]\<rparr>]\<rparr>]\<rparr>
      in q\<lparr>traces := (traces q)(traceID \<mapsto> td)\<rparr>)"

text \<open>
  The catalog that \<^verbatim>\<open>initDemoData\<close> sets up, the same in both programs
  (lines 184 to 201 and lines 154 to 171).
\<close>

definition initDemoData_catalog :: "'t QueryService \<Rightarrow> 't QueryService" where
  "initDemoData_catalog q =
     (let q1 = q\<lparr>services := [''frontend'', ''auth-service'', ''database'']\<rparr>;
          q2 = q1\<lparr>operations := (operations q1)(''frontend'' \<mapsto>
                 [''HTTP GET /api/users'', ''HTTP POST /api/login'', ''HTTP GET /health''])\<rparr>;
          q3 = q2\<lparr>operations := (operations q2)(''auth-service'' \<mapsto>
                 [''authenticate'', ''validate-token'', ''refresh-token''])\<rparr>;
          q4 = q3\<lparr>operations := (operations q3)(''database'' \<mapsto>
                 [''SELECT users'', ''INSERT session'', ''UPDATE last_login''])\<rparr>
      in q4)"

definition initDemoData_otlp ::
  "64 word \<Rightarrow> 64 word \<Rightarrow> TracesData QueryService \<Rightarrow> TracesData QueryService" where
  "initDemoData_otlp now1 now2 q =
     createSampleTrace2_otlp now2 (createSampleTrace1_otlp now1 (initDemoData_catalog q))"

text \<open>
  \<^verbatim>\<open>createSampleTrace2\<close> of the flat program, lines 180 to 233. The key is
  \<^verbatim>\<open>traceID.String()\<close>, the hexadecimal text that the identifier was parsed
  from. The body of the flat program's \<^verbatim>\<open>createSampleTrace1\<close> is not part of
  \<^verbatim>\<open>src/unnamed/part_000\<close>, so \<open>initDemoData_flat\<close> takes it as a parameter.
\<close>

definition createSampleTrace2_flat :: "int \<Rightarrow> Span list QueryService \<Rightarrow> Span list QueryService" where
  "createSampleTrace2_flat time_now q =
     (let traceID = \<lparr>TraceID_High = 0xfedcba0987654321, TraceID_Low = 0xfedcba0987654321\<rparr>;
          now = time_now - 5 * 60 * 1000000000;
          span1 = \<lparr>Span_TraceID = traceID,
                   Span_SpanID = 0x4444444444444444,
                   Span_OperationName = ''HTTP POST /api/login'',
                   Span_References = [],
                   Span_StartTime = now,
                   Span_Duration = 200 * 1000000,
                   Span_Process = Some \<lparr>Process_ServiceName = ''frontend'',
                     Process_Tags = [model_String ''hostname'' ''frontend-01'']\<rparr>,
                   Span_Tags = [model_String ''http.method'' ''POST'',
                     model_String ''http.url'' ''/api/login'',
                     model_Int64 ''http.status_code'' 200]\<rparr>;
          span2 = \<lparr>Span_TraceID = traceID,
                   Span_SpanID = 0x5555555555555555,
                   Span_OperationName = ''validate-token'',
                   Span_References = [\<lparr>SpanRef_TraceID = traceID,
                     SpanRef_SpanID = 0x4444444444444444, SpanRef_RefType = ChildOf\<rparr>],
                   Span_StartTime = now + 15 * 1000000,
                   Span_Duration = 80 * 1000000,
                   Span_Process = Some \<lparr>Process_ServiceName = ''auth-service'',
                     Process_Tags = [model_String ''hostname'' ''auth-01'']\<rparr>,
                   Span_Tags = [model_String ''user.email'' ''user@example.com'',
                     model_String ''token.type'' ''jwt'']\<rparr>
      in q\<lparr>traces := (traces q)(''fedcba0987654321fedcba0987654321'' \<mapsto> [span1, span2])\<rparr>)"

definition initDemoData_flat ::
  "(Span list QueryService \<Rightarrow> Span list QueryService) \<Rightarrow> int
     \<Rightarrow> Span list QueryService \<Rightarrow> Span list QueryService" where
  "initDemoData_flat createSampleTrace1 time_now q =
     createSampleTrace2_flat time_now (createSampleTrace1 (initDemoData_catalog q))"

section \<open>Notions used to state the properties\<close>

text \<open>The chunks that a call delivered: what the stream holds after it beyond what it held before.\<close>

definition emitted :: "'c stream \<Rightarrow> 'c stream \<Rightarrow> 'c list" where
  "emitted st st' = drop (length (sent st)) (sent st')"

text \<open>Sending a list of chunks in turn, stopping at the first failure.\<close>

fun send_all :: "'c list \<Rightarrow> 'c stream \<Rightarrow> error option \<times> 'c stream" where
  "send_all [] st = (None, st)"
| "send_all (c # cs) st =
     (case Send c st of
        (Some err, st') \<Rightarrow> (Some err, st')
      | (None, st') \<Rightarrow> send_all cs st')"

text \<open>
  The matching rule for one span of the flat model: its process is present and
  names the service asked for, and the operation asked for is empty or is the
  span's own.
\<close>

definition span_satisfies :: "TraceQueryParameters \<Rightarrow> Span \<Rightarrow> bool" where
  "span_satisfies qp span =
     (case Span_Process span of
        None \<Rightarrow> False
      | Some p \<Rightarrow>
          Process_ServiceName p = TraceQueryParameters_ServiceName qp
          \<and> (TraceQueryParameters_OperationName qp = []
               \<or> Span_OperationName span = TraceQueryParameters_OperationName qp))"

text \<open>
  The rule in the words of the specification, read on the OTLP model: some span
  below some resource satisfies the query, the owning service name of a span
  being the service name of the resource it lies below.
\<close>

definition some_span_under_resource_satisfies :: "TraceQueryParameters \<Rightarrow> TracesData \<Rightarrow> bool" where
  "some_span_under_resource_satisfies qp td =
     (\<exists>rs \<in> set (TracesData_ResourceSpans td).
        \<exists>ss \<in> set (ResourceSpans_ScopeSpans rs).
          \<exists>span \<in> set (ScopeSpans_Spans ss).
            getServiceName (ResourceSpans_Resource rs) = TraceQueryParameters_ServiceName qp
            \<and> (TraceQueryParameters_OperationName qp = []
                 \<or> otlp_Span_Name span = TraceQueryParameters_OperationName qp))"

subsection \<open>Example data\<close>

definition accept_all :: "'c list \<Rightarrow> 'c \<Rightarrow> error option" where
  "accept_all history c = None"

definition closing :: error where
  "closing = TransportError ''transport is closing''"

definition fail_after :: "nat \<Rightarrow> 'c list \<Rightarrow> 'c \<Rightarrow> error option" where
  "fail_after n history c =
     (if n \<le> length history then Some closing else None)"

definition new_stream :: "('c list \<Rightarrow> 'c \<Rightarrow> error option) \<Rightarrow> 'c stream" where
  "new_stream t = \<lparr>sent = [], transport = t\<rparr>"

definition query :: "string \<Rightarrow> string \<Rightarrow> TraceQueryParameters" where
  "query serviceName operationName =
     \<lparr>TraceQueryParameters_ServiceName = serviceName,
      TraceQueryParameters_OperationName = operationName,
      TraceQueryParameters_Attributes = Map.empty\<rparr>"

definition find_request :: "string \<Rightarrow> string \<Rightarrow> FindTracesRequest" where
  "find_request serviceName operationName =
     \<lparr>FindTracesRequest_Query = Some (query serviceName operationName)\<rparr>"

definition id1 :: string where "id1 = ''1234567890abcdef1234567890abcdef''"

definition id2 :: string where "id2 = ''fedcba0987654321fedcba0987654321''"

definition demo_otlp :: "TracesData QueryService" where
  "demo_otlp = initDemoData_otlp 1700000000000000000 1700000000500000000 NewQueryService"

definition example_trace1_flat :: "Span list" where
  "example_trace1_flat =
     [\<lparr>Span_TraceID = \<lparr>TraceID_High = 0x1234567890abcdef, TraceID_Low = 0x1234567890abcdef\<rparr>,
       Span_SpanID = 0x1111111111111111,
       Span_OperationName = ''HTTP GET /api/users'',
       Span_References = [],
       Span_StartTime = 1700000000000000000,
       Span_Duration = 120 * 1000000,
       Span_Process = Some \<lparr>Process_ServiceName = ''frontend'', Process_Tags = []\<rparr>,
       Span_Tags = []\<rparr>,
      \<lparr>Span_TraceID = \<lparr>TraceID_High = 0x1234567890abcdef, TraceID_Low = 0x1234567890abcdef\<rparr>,
       Span_SpanID = 0x3333333333333333,
       Span_OperationName = ''SELECT users'',
       Span_References = [],
       Span_StartTime = 1700000000020000000,
       Span_Duration = 30 * 1000000,
       Span_Process = Some \<lparr>Process_ServiceName = ''database'', Process_Tags = []\<rparr>,
       Span_Tags = []\<rparr>]"

definition demo_flat :: "Span list QueryService" where
  "demo_flat = initDemoData_flat (Put id1 example_trace1_flat) 1700000000500000000 NewQueryService"

definition id3 :: string where "id3 = ''00000000000000000000000000000abc''"

definition spanless_trace :: TracesData where
  "spanless_trace =
     \<lparr>TracesData_ResourceSpans =
        [\<lparr>ResourceSpans_Resource =
            Some \<lparr>Resource_Attributes = [stringAttr ''service.name'' ''frontend'']\<rparr>,
          ResourceSpans_ScopeSpans = []\<rparr>]\<rparr>"

definition nil_resource_trace :: TracesData where
  "nil_resource_trace =
     \<lparr>TracesData_ResourceSpans =
        [\<lparr>ResourceSpans_Resource = None,
          ResourceSpans_ScopeSpans =
            [\<lparr>ScopeSpans_Spans =
               [\<lparr>otlp_Span_TraceId = trace_id_bytes id1,
                 otlp_Span_SpanId = replicate 8 0x11,
                 otlp_Span_ParentSpanId = [],
                 otlp_Span_Name = ''authenticate'',
                 otlp_Span_StartTimeUnixNano = 1700000000000000000,
                 otlp_Span_EndTimeUnixNano = 1700000000050000000,
                 otlp_Span_Kind = SPAN_KIND_SERVER,
                 otlp_Span_Attributes = []\<rparr>]\<rparr>]\<rparr>]\<rparr>"

definition demo3_flat :: "Span list QueryService" where
  "demo3_flat = Put id3 example_trace1_flat demo_flat"

definition demo3_otlp :: "TracesData QueryService" where
  "demo3_otlp = Put id3 spanless_trace demo_otlp"

lemmas demo_defs =
  demo_otlp_def demo_flat_def initDemoData_otlp_def initDemoData_flat_def
  createSampleTrace1_otlp_def createSampleTrace2_otlp_def createSampleTrace2_flat_def
  initDemoData_catalog_def NewQueryService_def Put_def example_trace1_flat_def
  stringAttr_def intAttr_def Let_def id1_def id2_def query_def find_request_def
  new_stream_def accept_all_def fail_after_def spanless_trace_def nil_resource_trace_def
  id3_def demo3_flat_def demo3_otlp_def

lemmas handler_defs =
  GetTrace_flat_def GetTrace_otlp_def FindTraces_flat_def FindTraces_otlp_def
  GetServices_def GetOperations_flat_def GetOperations_otlp_def GetDependencies_def
  Send_def emitted_def

section \<open>Auxiliary facts\<close>

subsection \<open>Sending\<close>

lemma send_all_ok:
  "send_all cs st = (None, st') \<Longrightarrow> sent st' = sent st @ cs \<and> transport st' = transport st"
proof (induction cs arbitrary: st)
  case Nil
  then show ?case by simp
next
  case (Cons c cs)
  show ?case
  proof (cases "transport st (sent st) c")
    case None
    with Cons.prems have "send_all cs (st\<lparr>sent := sent st @ [c]\<rparr>) = (None, st')"
      by (simp add: Send_def)
    from Cons.IH [OF this] show ?thesis by simp
  next
    case (Some e)
    with Cons.prems show ?thesis by (simp add: Send_def)
  qed
qed

lemma send_all_prefix:
  "send_all cs st = (r, st') \<Longrightarrow> \<exists>n. sent st' = sent st @ take n cs"
proof (induction cs arbitrary: st)
  case Nil
  then show ?case by simp
next
  case (Cons c cs)
  show ?case
  proof (cases "transport st (sent st) c")
    case None
    with Cons.prems have "send_all cs (st\<lparr>sent := sent st @ [c]\<rparr>) = (r, st')"
      by (simp add: Send_def)
    from Cons.IH [OF this] obtain n where "sent st' = sent st @ c # take n cs" by auto
    then have "sent st' = sent st @ take (Suc n) (c # cs)" by simp
    then show ?thesis by blast
  next
    case (Some e)
    with Cons.prems have "sent st' = sent st @ take 0 (c # cs)" by (simp add: Send_def)
    then show ?thesis by blast
  qed
qed

lemma send_all_abort:
  "send_all cs1 st = (None, st1) \<Longrightarrow> transport st1 (sent st1) c = Some e \<Longrightarrow>
     send_all (cs1 @ c # cs2) st = (Some e, st1)"
proof (induction cs1 arbitrary: st)
  case Nil
  then show ?case by (simp add: Send_def)
next
  case (Cons a cs1)
  show ?case
  proof (cases "transport st (sent st) a")
    case None
    with Cons.prems(1) have "send_all cs1 (st\<lparr>sent := sent st @ [a]\<rparr>) = (None, st1)"
      by (simp add: Send_def)
    from Cons.IH [OF this Cons.prems(2)] None show ?thesis by (simp add: Send_def)
  next
    case (Some e')
    with Cons.prems show ?thesis by (simp add: Send_def)
  qed
qed

lemma emitted_ok:
  "send_all cs st = (None, st') \<Longrightarrow> emitted st st' = cs"
  by (simp add: emitted_def send_all_ok)

lemma emitted_subset:
  assumes "send_all cs st = (r, st')"
  shows "set (emitted st st') \<subseteq> set cs"
proof -
  from send_all_prefix [OF assms] obtain n where "sent st' = sent st @ take n cs" by blast
  then have "emitted st st' = take n cs" by (simp add: emitted_def)
  then show ?thesis by (simp add: set_take_subset)
qed

subsection \<open>Visiting the store\<close>

lemma range_map_append: "range_map (ks1 @ ks2) m = range_map ks1 m @ range_map ks2 m"
  by (induction ks1) (simp_all split: option.splits)

lemma set_range_map: "set (range_map ks m) = {(k, v). k \<in> set ks \<and> m k = Some v}"
  by (induction ks) (auto split: option.splits)

lemma snd_set_range_map_subset: "snd ` set (range_map ks m) \<subseteq> ran m"
  by (force simp: set_range_map ran_def)

lemma snd_set_range_map: "iteration_order ks m \<Longrightarrow> snd ` set (range_map ks m) = ran m"
  by (force simp: set_range_map iteration_order_def ran_def dom_def)

lemma map_fst_range_map: "map fst (range_map ks m) = filter (\<lambda>k. m k \<noteq> None) ks"
  by (induction ks) (auto split: option.splits)

lemma range_map_visits_each_entry_once:
  assumes io: "iteration_order ks m"
  shows "distinct (map fst (range_map ks m)) \<and> map_of (range_map ks m) = m"
proof -
  have d: "distinct (map fst (range_map ks m))"
    using io by (simp add: map_fst_range_map iteration_order_def)
  have "map_of (range_map ks m) k = m k" for k
  proof (cases "m k")
    case None
    then have "k \<notin> fst ` set (range_map ks m)" by (force simp: set_range_map)
    then show ?thesis using None by (simp add: map_of_eq_None_iff)
  next
    case (Some v)
    then have "(k, v) \<in> set (range_map ks m)"
      using io by (auto simp: set_range_map iteration_order_def)
    then show ?thesis using d Some by simp
  qed
  then show ?thesis using d by auto
qed

subsection \<open>The loops as filters\<close>

lemma match_spans_iff:
  "match_spans qp spans = (\<exists>span \<in> set spans. span_satisfies qp span)"
  by (induction spans) (auto simp: span_satisfies_def split: option.splits)

lemma match_span_names_iff:
  "match_span_names n spans = (\<exists>span \<in> set spans. otlp_Span_Name span = n)"
  by (induction spans) auto

lemma match_scope_spans_iff:
  "match_scope_spans n sss =
     (\<exists>ss \<in> set sss. \<exists>span \<in> set (ScopeSpans_Spans ss). otlp_Span_Name span = n)"
  by (induction sss) (auto simp: match_span_names_iff)

lemma match_resource_spans_iff:
  "match_resource_spans qp rss =
     (\<exists>rs \<in> set rss.
        getServiceName (ResourceSpans_Resource rs) = TraceQueryParameters_ServiceName qp
        \<and> (TraceQueryParameters_OperationName qp = []
             \<or> (\<exists>ss \<in> set (ResourceSpans_ScopeSpans rs).
                   \<exists>span \<in> set (ScopeSpans_Spans ss).
                     otlp_Span_Name span = TraceQueryParameters_OperationName qp)))"
  by (induction rss) (auto simp: match_scope_spans_iff)

lemma TracesData_copy:
  "\<lparr>TracesData_ResourceSpans = TracesData_ResourceSpans td\<rparr> = td"
  by (cases td) simp

lemma FindTraces_loop_flat_send_all:
  "FindTraces_loop_flat qp kvs st =
     send_all (map (\<lambda>kv. \<lparr>SpansResponseChunk_Spans = snd kv\<rparr>)
                 (filter (\<lambda>kv. match_spans qp (snd kv)) kvs)) st"
proof (induction kvs arbitrary: st)
  case Nil
  then show ?case by simp
next
  case (Cons kv kvs)
  obtain k spans where kv: "kv = (k, spans)" by (cases kv)
  show ?case unfolding kv
    by (simp add: Cons.IH split: prod.splits option.splits)
qed

lemma FindTraces_loop_otlp_send_all:
  "FindTraces_loop_otlp qp kvs st =
     send_all (map snd
                 (filter (\<lambda>kv. match_resource_spans qp (TracesData_ResourceSpans (snd kv))) kvs)) st"
proof (induction kvs arbitrary: st)
  case Nil
  then show ?case by simp
next
  case (Cons kv kvs)
  obtain k td where kv: "kv = (k, td)" by (cases kv)
  show ?case unfolding kv
    by (simp add: Cons.IH TracesData_copy split: prod.splits option.splits)
qed

subsection \<open>The handlers case by case\<close>

lemma GetTrace_flat_absent:
  "traces q (GetTraceRequest_TraceId req) = None \<Longrightarrow> GetTrace_flat q req st = ((None, st), q)"
  by (simp add: GetTrace_flat_def)

lemma GetTrace_otlp_absent:
  "traces q (GetTraceRequest_TraceId req) = None \<Longrightarrow> GetTrace_otlp q req st = ((None, st), q)"
  by (simp add: GetTrace_otlp_def)

lemma GetTrace_flat_present:
  "traces q (GetTraceRequest_TraceId req) = Some spans \<Longrightarrow>
     GetTrace_flat q req st = (Send \<lparr>SpansResponseChunk_Spans = spans\<rparr> st, q)"
  by (simp add: GetTrace_flat_def Send_def split: option.splits)

lemma GetTrace_otlp_present:
  "traces q (GetTraceRequest_TraceId req) = Some td \<Longrightarrow>
     GetTrace_otlp q req st = (Send td st, q)"
  by (simp add: GetTrace_otlp_def Send_def TracesData_copy split: option.splits)

lemma foldl_append_singletons: "foldl (\<lambda>acc x. acc @ [f x]) ys xs = ys @ map f xs"
  by (induction xs arbitrary: ys) simp_all


subsection \<open>Spans without a process, resources that are absent\<close>

text \<open>
  In the flat program a span without a process never makes its trace match. In
  the OTLP program a \<^verbatim>\<open>ResourceSpans\<close> without a resource never makes its
  trace match a query that names a service.
\<close>

lemma match_spans_without_Process:
  "\<forall>span \<in> set spans. Span_Process span = None \<Longrightarrow> \<not> match_spans qp spans"
  by (simp add: match_spans_iff span_satisfies_def)

lemma match_resource_spans_without_Resource:
  "TraceQueryParameters_ServiceName qp \<noteq> [] \<Longrightarrow>
   \<forall>rs \<in> set rss. ResourceSpans_Resource rs = None \<Longrightarrow> \<not> match_resource_spans qp rss"
  by (auto simp: match_resource_spans_iff)

subsection \<open>What a search that runs to its end delivers\<close>

text \<open>
  A search that returns without a send failure delivers the stored traces that
  its loop matches, one chunk for each, in the order the store was visited. In
  the flat program these are the traces with a span that satisfies the query.
\<close>

lemma FindTraces_flat_delivers:
  assumes io: "iteration_order ks (traces q)"
    and run: "FindTraces_flat q \<lparr>FindTracesRequest_Query = Some qp\<rparr> ks st = ((None, st'), q')"
  shows "emitted st st'
      = map (\<lambda>kv. \<lparr>SpansResponseChunk_Spans = snd kv\<rparr>)
          (filter (\<lambda>kv. \<exists>span \<in> set (snd kv). span_satisfies qp span)
             (range_map ks (traces q)))"
    and "\<lparr>SpansResponseChunk_Spans = spans\<rparr> \<in> set (emitted st st')
      \<longleftrightarrow> spans \<in> ran (traces q) \<and> (\<exists>span \<in> set spans. span_satisfies qp span)"
proof -
  let ?sat = "\<lambda>kv :: string \<times> Span list. \<exists>span \<in> set (snd kv). span_satisfies qp span"
  from run have "FindTraces_loop_flat qp (range_map ks (traces q)) st = (None, st')"
    by (auto simp: FindTraces_flat_def)
  then have "emitted st st'
      = map (\<lambda>kv. \<lparr>SpansResponseChunk_Spans = snd kv\<rparr>)
          (filter (\<lambda>kv. match_spans qp (snd kv)) (range_map ks (traces q)))"
    by (simp add: FindTraces_loop_flat_send_all emitted_ok)
  then show e: "emitted st st'
      = map (\<lambda>kv. \<lparr>SpansResponseChunk_Spans = snd kv\<rparr>) (filter ?sat (range_map ks (traces q)))"
    by (simp add: match_spans_iff)
  have "\<lparr>SpansResponseChunk_Spans = spans\<rparr> \<in> set (emitted st st')
      \<longleftrightarrow> spans \<in> snd ` set (range_map ks (traces q))
          \<and> (\<exists>span \<in> set spans. span_satisfies qp span)"
    unfolding e by force
  with io show "\<lparr>SpansResponseChunk_Spans = spans\<rparr> \<in> set (emitted st st')
      \<longleftrightarrow> spans \<in> ran (traces q) \<and> (\<exists>span \<in> set spans. span_satisfies qp span)"
    by (simp add: snd_set_range_map)
qed

lemma FindTraces_otlp_delivers:
  assumes io: "iteration_order ks (traces q)"
    and run: "FindTraces_otlp q \<lparr>FindTracesRequest_Query = Some qp\<rparr> ks st = ((None, st'), q')"
  shows "emitted st st'
      = map snd
          (filter (\<lambda>kv. match_resource_spans qp (TracesData_ResourceSpans (snd kv)))
             (range_map ks (traces q)))"
    and "td \<in> set (emitted st st')
      \<longleftrightarrow> td \<in> ran (traces q) \<and> match_resource_spans qp (TracesData_ResourceSpans td)"
proof -
  from run have "FindTraces_loop_otlp qp (range_map ks (traces q)) st = (None, st')"
    by (auto simp: FindTraces_otlp_def)
  then show e: "emitted st st'
      = map snd
          (filter (\<lambda>kv. match_resource_spans qp (TracesData_ResourceSpans (snd kv)))
             (range_map ks (traces q)))"
    by (simp add: FindTraces_loop_otlp_send_all emitted_ok)
  have "td \<in> set (emitted st st')
      \<longleftrightarrow> td \<in> snd ` set (range_map ks (traces q))
          \<and> match_resource_spans qp (TracesData_ResourceSpans td)"
    unfolding e by force
  with io show "td \<in> set (emitted st st')
      \<longleftrightarrow> td \<in> ran (traces q) \<and> match_resource_spans qp (TracesData_ResourceSpans td)"
    by (simp add: snd_set_range_map)
qed

text \<open>
  In the OTLP program every stored trace with a span below a resource that
  satisfies the query is delivered, for every service name and every store.
  The converse is what fails.
\<close>

lemma some_span_under_resource_satisfies_matches:
  "some_span_under_resource_satisfies qp td
     \<Longrightarrow> match_resource_spans qp (TracesData_ResourceSpans td)"
  unfolding some_span_under_resource_satisfies_def match_resource_spans_iff by blast

lemma FindTraces_otlp_delivers_every_satisfying_trace:
  assumes "iteration_order ks (traces q)"
    and "FindTraces_otlp q \<lparr>FindTracesRequest_Query = Some qp\<rparr> ks st = ((None, st'), q')"
    and "traces q k = Some td"
    and "some_span_under_resource_satisfies qp td"
  shows "td \<in> set (emitted st st')"
  using assms
  by (auto simp: FindTraces_otlp_delivers(2) ran_def
      intro: some_span_under_resource_satisfies_matches)

section \<open>The claims\<close>

text \<open>
  C1 fails in the OTLP program. Its loop tests the operation name of the query
  for emptiness once the service name of a \<^verbatim>\<open>ResourceSpans\<close> agrees, before
  it looks at any span (lines 71 to 75), although its comment (line 67) says
  that it checks whether any span matches. Here the store holds one trace,
  whose only \<^verbatim>\<open>ResourceSpans\<close> names the service \<^verbatim>\<open>frontend\<close> and holds no
  span at all. The query \<^verbatim>\<open>{frontend, ""}\<close> delivers it, although no span of
  it satisfies the query. The flat program, given a trace without a span under
  the same query, delivers nothing.
\<close>

theorem FindTraces_otlp_emits_a_trace_without_spans:
  "concat (map ScopeSpans_Spans
      (concat (map ResourceSpans_ScopeSpans (TracesData_ResourceSpans spanless_trace)))) = []
   \<and> \<not> some_span_under_resource_satisfies (query ''frontend'' []) spanless_trace
   \<and> fst (FindTraces_otlp (Put id1 spanless_trace NewQueryService)
             (find_request ''frontend'' []) [id1] (new_stream accept_all))
       = (None, \<lparr>sent = [spanless_trace], transport = accept_all\<rparr>)
   \<and> fst (FindTraces_flat (Put id1 [] NewQueryService)
             (find_request ''frontend'' []) [id1] (new_stream accept_all))
       = (None, \<lparr>sent = [], transport = accept_all\<rparr>)"
  by (simp add: spanless_trace_def query_def find_request_def Put_def stringAttr_def
      NewQueryService_def new_stream_def FindTraces_otlp_def FindTraces_flat_def Send_def
      accept_all_def some_span_under_resource_satisfies_def)

text \<open>
  C2 fails in the OTLP program. \<^verbatim>\<open>getServiceName\<close> answers the empty string
  for a nil resource, and \<open>FindTraces\<close> compares that answer with the service
  name of the query: for the empty service name the comparison succeeds. Here
  the store holds one trace, whose only \<^verbatim>\<open>ResourceSpans\<close> has no resource;
  the query with the empty service name and the empty operation name delivers
  it.
\<close>

theorem FindTraces_otlp_nil_Resource_matches_empty_serviceName:
  "ResourceSpans_Resource (hd (TracesData_ResourceSpans nil_resource_trace)) = None
   \<and> length (TracesData_ResourceSpans nil_resource_trace) = 1
   \<and> match_resource_spans (query [] []) (TracesData_ResourceSpans nil_resource_trace)
   \<and> fst (FindTraces_otlp (Put id1 nil_resource_trace NewQueryService)
             (find_request [] []) [id1] (new_stream accept_all))
       = (None, \<lparr>sent = [nil_resource_trace], transport = accept_all\<rparr>)"
  by (simp add: nil_resource_trace_def query_def find_request_def Put_def
      NewQueryService_def new_stream_def FindTraces_otlp_def Send_def accept_all_def)

text \<open>
  C3 as stated fails: \<open>GetTrace\<close> has no check of the identifier. On the demo
  stores the empty identifier is answered exactly as an unknown one is, with no
  error.
\<close>

theorem GetTrace_empty_id_is_answered_like_an_unknown_id:
  "GetTrace_flat demo_flat \<lparr>GetTraceRequest_TraceId = []\<rparr> (new_stream accept_all)
     = GetTrace_flat demo_flat \<lparr>GetTraceRequest_TraceId = ''deadbeef''\<rparr> (new_stream accept_all)
   \<and> fst (fst (GetTrace_flat demo_flat \<lparr>GetTraceRequest_TraceId = []\<rparr>
                 (new_stream accept_all))) = None
   \<and> GetTrace_otlp demo_otlp \<lparr>GetTraceRequest_TraceId = []\<rparr> (new_stream accept_all)
     = GetTrace_otlp demo_otlp \<lparr>GetTraceRequest_TraceId = ''deadbeef''\<rparr> (new_stream accept_all)
   \<and> fst (fst (GetTrace_otlp demo_otlp \<lparr>GetTraceRequest_TraceId = []\<rparr>
                 (new_stream accept_all))) = None"
proof -
  have "traces demo_flat [] = None" "traces demo_flat ''deadbeef'' = None"
    "traces demo_otlp [] = None" "traces demo_otlp ''deadbeef'' = None"
    by (simp_all add: demo_defs)
  then show ?thesis
    by (simp add: GetTrace_flat_absent GetTrace_otlp_absent)
qed

text \<open>
  C3, as amended. \<open>GetTrace\<close> does not validate the trace identifier: the empty
  identifier is looked up in the store like any other key. When the store has
  no entry under it, the call returns no error and sends nothing, which is the
  outcome for an unknown identifier; when the store has one, the call sends
  that trace. This holds in both programs.
\<close>

theorem GetTrace_empty_id_is_an_ordinary_lookup:
  "(traces qF [] = None \<longrightarrow>
      GetTrace_flat qF \<lparr>GetTraceRequest_TraceId = []\<rparr> stF = ((None, stF), qF))
   \<and> (traces qF' [] = Some spans \<longrightarrow>
      GetTrace_flat qF' \<lparr>GetTraceRequest_TraceId = []\<rparr> stF
        = (Send \<lparr>SpansResponseChunk_Spans = spans\<rparr> stF, qF'))
   \<and> (traces qO [] = None \<longrightarrow>
      GetTrace_otlp qO \<lparr>GetTraceRequest_TraceId = []\<rparr> stO = ((None, stO), qO))
   \<and> (traces qO' [] = Some td \<longrightarrow>
      GetTrace_otlp qO' \<lparr>GetTraceRequest_TraceId = []\<rparr> stO = (Send td stO, qO'))"
  by (simp add: GetTrace_flat_absent GetTrace_otlp_absent GetTrace_flat_present
      GetTrace_otlp_present)

theorem GetTrace_empty_id_is_an_ordinary_lookup_witness:
  "traces demo_flat [] = None
   \<and> fst (GetTrace_flat demo_flat \<lparr>GetTraceRequest_TraceId = []\<rparr> (new_stream accept_all))
       = (None, new_stream accept_all)
   \<and> traces (Put [] example_trace1_flat demo_flat) [] = Some example_trace1_flat
   \<and> fst (GetTrace_flat (Put [] example_trace1_flat demo_flat)
             \<lparr>GetTraceRequest_TraceId = []\<rparr> (new_stream accept_all))
       = (None, \<lparr>sent = [\<lparr>SpansResponseChunk_Spans = example_trace1_flat\<rparr>],
                 transport = accept_all\<rparr>)
   \<and> traces demo_otlp [] = None
   \<and> fst (GetTrace_otlp demo_otlp \<lparr>GetTraceRequest_TraceId = []\<rparr> (new_stream accept_all))
       = (None, new_stream accept_all)
   \<and> traces (Put [] spanless_trace demo_otlp) [] = Some spanless_trace
   \<and> fst (GetTrace_otlp (Put [] spanless_trace demo_otlp)
             \<lparr>GetTraceRequest_TraceId = []\<rparr> (new_stream accept_all))
       = (None, \<lparr>sent = [spanless_trace], transport = accept_all\<rparr>)"
proof -
  have a: "traces demo_flat [] = None" and b: "traces demo_otlp [] = None"
    by (simp_all add: demo_defs)
  have c: "traces (Put [] example_trace1_flat demo_flat) [] = Some example_trace1_flat"
    and d: "traces (Put [] spanless_trace demo_otlp) [] = Some spanless_trace"
    by (simp_all add: Put_def)
  note main = GetTrace_empty_id_is_an_ordinary_lookup
    [of demo_flat "new_stream accept_all" "Put [] example_trace1_flat demo_flat"
        example_trace1_flat demo_otlp "new_stream accept_all"
        "Put [] spanless_trace demo_otlp" spanless_trace]
  from main a b c d show ?thesis
    by (simp add: Send_def new_stream_def accept_all_def)
qed

text \<open>
  C4. For every trace identifier that the store does not hold, \<open>GetTrace\<close>
  returns no error and sends nothing: the stream and the service state are as
  they were. This holds in both programs.
\<close>

theorem GetTrace_unknown_id_sends_nothing:
  "(traces qF (GetTraceRequest_TraceId req) = None \<longrightarrow>
      GetTrace_flat qF req stF = ((None, stF), qF) \<and> emitted stF stF = [])
   \<and> (traces qO (GetTraceRequest_TraceId req) = None \<longrightarrow>
      GetTrace_otlp qO req stO = ((None, stO), qO) \<and> emitted stO stO = [])"
  by (simp add: GetTrace_flat_absent GetTrace_otlp_absent emitted_def)

theorem GetTrace_unknown_id_sends_nothing_witness:
  "traces demo_flat ''deadbeef'' = None
   \<and> GetTrace_flat demo_flat \<lparr>GetTraceRequest_TraceId = ''deadbeef''\<rparr> (new_stream accept_all)
       = ((None, new_stream accept_all), demo_flat)
   \<and> traces demo_otlp ''deadbeef'' = None
   \<and> GetTrace_otlp demo_otlp \<lparr>GetTraceRequest_TraceId = ''deadbeef''\<rparr> (new_stream accept_all)
       = ((None, new_stream accept_all), demo_otlp)"
proof -
  have f: "traces demo_flat ''deadbeef'' = None" by (simp add: demo_defs)
  have o: "traces demo_otlp ''deadbeef'' = None" by (simp add: demo_defs)
  from f o show ?thesis
    using GetTrace_unknown_id_sends_nothing
      [of demo_flat "\<lparr>GetTraceRequest_TraceId = ''deadbeef''\<rparr>" "new_stream accept_all"
          demo_otlp "new_stream accept_all"]
    by simp
qed

text \<open>
  C5. Take any store, service name and operation name. A trace that matches
  the query for the service and the operation also matches the query for the
  service alone; and whatever a search for the service and the operation
  delivers is also delivered by a search for the service alone that runs to its
  end: naming an operation never adds a trace. The two searches may visit the
  store in different orders and write to different streams. This holds in both
  programs.
\<close>

theorem FindTraces_operation_only_narrows:
  "(match_spans qp spans
    \<longrightarrow> match_spans (qp\<lparr>TraceQueryParameters_OperationName := []\<rparr>) spans)
   \<and> (match_resource_spans qp rss
    \<longrightarrow> match_resource_spans (qp\<lparr>TraceQueryParameters_OperationName := []\<rparr>) rss)
   \<and> (iteration_order ksw (traces qF)
      \<and> FindTraces_flat qF \<lparr>FindTracesRequest_Query = Some qp\<rparr> ksn stFn = ((rF, stFn'), qFn)
      \<and> FindTraces_flat qF
           \<lparr>FindTracesRequest_Query = Some (qp\<lparr>TraceQueryParameters_OperationName := []\<rparr>)\<rparr>
           ksw stFw = ((None, stFw'), qFw)
    \<longrightarrow> set (emitted stFn stFn') \<subseteq> set (emitted stFw stFw'))
   \<and> (iteration_order ksw (traces qO)
      \<and> FindTraces_otlp qO \<lparr>FindTracesRequest_Query = Some qp\<rparr> ksn stOn = ((rO, stOn'), qOn)
      \<and> FindTraces_otlp qO
           \<lparr>FindTracesRequest_Query = Some (qp\<lparr>TraceQueryParameters_OperationName := []\<rparr>)\<rparr>
           ksw stOw = ((None, stOw'), qOw)
    \<longrightarrow> set (emitted stOn stOn') \<subseteq> set (emitted stOw stOw'))"
proof (intro conjI impI)
  assume "match_spans qp spans"
  then show "match_spans (qp\<lparr>TraceQueryParameters_OperationName := []\<rparr>) spans"
    by (auto simp: match_spans_iff span_satisfies_def split: option.splits)
next
  assume "match_resource_spans qp rss"
  then show "match_resource_spans (qp\<lparr>TraceQueryParameters_OperationName := []\<rparr>) rss"
    by (auto simp: match_resource_spans_iff)
next
  let ?qz = "qp\<lparr>TraceQueryParameters_OperationName := []\<rparr>"
  assume h: "iteration_order ksw (traces qF)
      \<and> FindTraces_flat qF \<lparr>FindTracesRequest_Query = Some qp\<rparr> ksn stFn = ((rF, stFn'), qFn)
      \<and> FindTraces_flat qF \<lparr>FindTracesRequest_Query = Some ?qz\<rparr> ksw stFw
           = ((None, stFw'), qFw)"
  let ?chunk = "\<lambda>kv :: string \<times> Span list. \<lparr>SpansResponseChunk_Spans = snd kv\<rparr>"
  have wider: "match_spans ?qz spans" if "match_spans qp spans" for spans
    using that by (auto simp: match_spans_iff span_satisfies_def split: option.splits)
  from h have "FindTraces_loop_flat qp (range_map ksn (traces qF)) stFn = (rF, stFn')"
    by (auto simp: FindTraces_flat_def)
  then have "set (emitted stFn stFn')
      \<subseteq> set (map ?chunk (filter (\<lambda>kv. match_spans qp (snd kv)) (range_map ksn (traces qF))))"
    unfolding FindTraces_loop_flat_send_all by (rule emitted_subset)
  also have "\<dots> \<subseteq> (\<lambda>spans. \<lparr>SpansResponseChunk_Spans = spans\<rparr>)
      ` {spans \<in> ran (traces qF). match_spans ?qz spans}"
    using snd_set_range_map_subset [of ksn "traces qF"] wider by force
  also have "\<dots> = (\<lambda>spans. \<lparr>SpansResponseChunk_Spans = spans\<rparr>)
      ` {spans \<in> snd ` set (range_map ksw (traces qF)). match_spans ?qz spans}"
    using h by (simp add: snd_set_range_map)
  also have "\<dots> = set (map ?chunk
      (filter (\<lambda>kv. match_spans ?qz (snd kv)) (range_map ksw (traces qF))))"
    by force
  also have "\<dots> = set (emitted stFw stFw')"
  proof -
    from h have "FindTraces_loop_flat ?qz (range_map ksw (traces qF)) stFw = (None, stFw')"
      by (auto simp: FindTraces_flat_def)
    then show ?thesis by (simp add: FindTraces_loop_flat_send_all emitted_ok)
  qed
  finally show "set (emitted stFn stFn') \<subseteq> set (emitted stFw stFw')" .
next
  let ?qz = "qp\<lparr>TraceQueryParameters_OperationName := []\<rparr>"
  assume h: "iteration_order ksw (traces qO)
      \<and> FindTraces_otlp qO \<lparr>FindTracesRequest_Query = Some qp\<rparr> ksn stOn = ((rO, stOn'), qOn)
      \<and> FindTraces_otlp qO \<lparr>FindTracesRequest_Query = Some ?qz\<rparr> ksw stOw
           = ((None, stOw'), qOw)"
  let ?m = "\<lambda>p (kv :: string \<times> TracesData).
      match_resource_spans p (TracesData_ResourceSpans (snd kv))"
  have wider: "match_resource_spans ?qz rss" if "match_resource_spans qp rss" for rss
    using that by (auto simp: match_resource_spans_iff)
  from h have "FindTraces_loop_otlp qp (range_map ksn (traces qO)) stOn = (rO, stOn')"
    by (auto simp: FindTraces_otlp_def)
  then have "set (emitted stOn stOn')
      \<subseteq> set (map snd (filter (?m qp) (range_map ksn (traces qO))))"
    unfolding FindTraces_loop_otlp_send_all by (rule emitted_subset)
  also have "\<dots> \<subseteq> {td \<in> ran (traces qO). match_resource_spans ?qz (TracesData_ResourceSpans td)}"
    using snd_set_range_map_subset [of ksn "traces qO"] wider by force
  also have "\<dots> = {td \<in> snd ` set (range_map ksw (traces qO)).
      match_resource_spans ?qz (TracesData_ResourceSpans td)}"
    using h by (simp add: snd_set_range_map)
  also have "\<dots> = set (map snd (filter (?m ?qz) (range_map ksw (traces qO))))"
    by force
  also have "\<dots> = set (emitted stOw stOw')"
  proof -
    from h have "FindTraces_loop_otlp ?qz (range_map ksw (traces qO)) stOw = (None, stOw')"
      by (auto simp: FindTraces_otlp_def)
    then show ?thesis by (simp add: FindTraces_loop_otlp_send_all emitted_ok)
  qed
  finally show "set (emitted stOn stOn') \<subseteq> set (emitted stOw stOw')" .
qed

theorem FindTraces_operation_only_narrows_witness:
  "match_spans (query ''frontend'' ''HTTP POST /api/login'') (the (traces demo_flat id2))
   \<and> match_spans (query ''frontend'' []) (the (traces demo_flat id2))
   \<and> match_resource_spans (query ''frontend'' ''HTTP POST /api/login'')
         (TracesData_ResourceSpans (the (traces demo_otlp id2)))
   \<and> match_resource_spans (query ''frontend'' [])
         (TracesData_ResourceSpans (the (traces demo_otlp id2)))
   \<and> iteration_order [id2, id1] (traces demo_flat)
   \<and> fst (fst (FindTraces_flat demo_flat (find_request ''frontend'' [])
                 [id2, id1] (new_stream accept_all))) = None
   \<and> set (emitted (new_stream accept_all)
        (snd (fst (FindTraces_flat demo_flat (find_request ''frontend'' ''HTTP POST /api/login'')
                     [id1, id2] (new_stream accept_all)))))
       \<subseteq> set (emitted (new_stream accept_all)
        (snd (fst (FindTraces_flat demo_flat (find_request ''frontend'' [])
                     [id2, id1] (new_stream accept_all)))))
   \<and> iteration_order [id2, id1] (traces demo_otlp)
   \<and> fst (fst (FindTraces_otlp demo_otlp (find_request ''frontend'' [])
                 [id2, id1] (new_stream accept_all))) = None
   \<and> set (emitted (new_stream accept_all)
        (snd (fst (FindTraces_otlp demo_otlp (find_request ''frontend'' ''HTTP POST /api/login'')
                     [id1, id2] (new_stream accept_all)))))
       \<subseteq> set (emitted (new_stream accept_all)
        (snd (fst (FindTraces_otlp demo_otlp (find_request ''frontend'' [])
                     [id2, id1] (new_stream accept_all)))))"
proof -
  let ?qp = "query ''frontend'' ''HTTP POST /api/login''"
  let ?st = "new_stream accept_all :: SpansResponseChunk stream"
  let ?su = "new_stream accept_all :: TracesData stream"
  let ?Fa = "FindTraces_flat demo_flat (find_request ''frontend'' ''HTTP POST /api/login'')
      [id1, id2] ?st"
  let ?Fb = "FindTraces_flat demo_flat (find_request ''frontend'' []) [id2, id1] ?st"
  let ?Oa = "FindTraces_otlp demo_otlp (find_request ''frontend'' ''HTTP POST /api/login'')
      [id1, id2] ?su"
  let ?Ob = "FindTraces_otlp demo_otlp (find_request ''frontend'' []) [id2, id1] ?su"
  have req1: "find_request ''frontend'' ''HTTP POST /api/login''
      = \<lparr>FindTracesRequest_Query = Some ?qp\<rparr>"
    by (simp add: find_request_def)
  have req2: "find_request ''frontend'' []
      = \<lparr>FindTracesRequest_Query = Some (?qp\<lparr>TraceQueryParameters_OperationName := []\<rparr>)\<rparr>"
    by (simp add: find_request_def query_def)
  have ioF: "iteration_order [id2, id1] (traces demo_flat)"
    by (auto simp: iteration_order_def demo_defs)
  have ioO: "iteration_order [id2, id1] (traces demo_otlp)"
    by (auto simp: iteration_order_def demo_defs)
  have okF: "fst (fst ?Fb) = None"
    by (simp add: demo_defs handler_defs)
  have okO: "fst (fst ?Ob) = None"
    by (simp add: demo_defs handler_defs)
  have runF1: "FindTraces_flat demo_flat \<lparr>FindTracesRequest_Query = Some ?qp\<rparr> [id1, id2] ?st
      = ((fst (fst ?Fa), snd (fst ?Fa)), snd ?Fa)"
    unfolding req1 [symmetric] by simp
  have runO1: "FindTraces_otlp demo_otlp \<lparr>FindTracesRequest_Query = Some ?qp\<rparr> [id1, id2] ?su
      = ((fst (fst ?Oa), snd (fst ?Oa)), snd ?Oa)"
    unfolding req1 [symmetric] by simp
  from okF have runF2: "FindTraces_flat demo_flat
      \<lparr>FindTracesRequest_Query = Some (?qp\<lparr>TraceQueryParameters_OperationName := []\<rparr>)\<rparr>
      [id2, id1] ?st = ((None, snd (fst ?Fb)), snd ?Fb)"
    unfolding req2 [symmetric] by (simp add: prod_eq_iff)
  from okO have runO2: "FindTraces_otlp demo_otlp
      \<lparr>FindTracesRequest_Query = Some (?qp\<lparr>TraceQueryParameters_OperationName := []\<rparr>)\<rparr>
      [id2, id1] ?su = ((None, snd (fst ?Ob)), snd ?Ob)"
    unfolding req2 [symmetric] by (simp add: prod_eq_iff)
  note main = FindTraces_operation_only_narrows
    [where qp = ?qp and spans = "the (traces demo_flat id2)"
       and rss = "TracesData_ResourceSpans (the (traces demo_otlp id2))"
       and ksn = "[id1, id2]" and ksw = "[id2, id1]"
       and qF = demo_flat and stFn = ?st and rF = "fst (fst ?Fa)"
       and stFn' = "snd (fst ?Fa)" and qFn = "snd ?Fa"
       and stFw = ?st and stFw' = "snd (fst ?Fb)" and qFw = "snd ?Fb"
       and qO = demo_otlp and stOn = ?su and rO = "fst (fst ?Oa)"
       and stOn' = "snd (fst ?Oa)" and qOn = "snd ?Oa"
       and stOw = ?su and stOw' = "snd (fst ?Ob)" and qOw = "snd ?Ob"]
  have mF: "match_spans ?qp (the (traces demo_flat id2))"
    and mO: "match_resource_spans ?qp (TracesData_ResourceSpans (the (traces demo_otlp id2)))"
    by (simp_all add: demo_defs)
  have qz: "?qp\<lparr>TraceQueryParameters_OperationName := []\<rparr> = query ''frontend'' []"
    by (simp add: query_def)
  from main mF have wF: "match_spans (query ''frontend'' []) (the (traces demo_flat id2))"
    unfolding qz by blast
  from main mO have wO: "match_resource_spans (query ''frontend'' [])
      (TracesData_ResourceSpans (the (traces demo_otlp id2)))"
    unfolding qz by blast
  from main ioF runF1 runF2
  have sF: "set (emitted ?st (snd (fst ?Fa))) \<subseteq> set (emitted ?st (snd (fst ?Fb)))"
    by blast
  from main ioO runO1 runO2
  have sO: "set (emitted ?su (snd (fst ?Oa))) \<subseteq> set (emitted ?su (snd (fst ?Ob)))"
    by blast
  from mF wF mO wO ioF okF sF ioO okO sO show ?thesis by blast
qed

text \<open>
  C6. When a send fails, the handler stops and returns that very error.
  \<open>GetTrace\<close>: the error of the failed send is the result and the stream is as
  it was. \<open>FindTraces\<close>: if the visit of the entries \<open>ks1\<close> went through, and
  the send for the next matching entry \<open>k\<close> fails with \<open>e\<close>, then the result over
  \<open>ks1\<close>, \<open>k\<close> and any further entries \<open>ks2\<close> is \<open>e\<close>, with the stream as the
  visit of \<open>ks1\<close> left it: nothing of \<open>ks2\<close> is looked at, and what was delivered
  stays delivered. This holds in both programs.
\<close>

theorem Send_failure_aborts_and_propagates:
  "(traces qF (GetTraceRequest_TraceId treq) = Some spans0
      \<and> transport stF0 (sent stF0) \<lparr>SpansResponseChunk_Spans = spans0\<rparr> = Some e0
    \<longrightarrow> GetTrace_flat qF treq stF0 = ((Some e0, stF0), qF))
   \<and> (FindTraces_flat qF \<lparr>FindTracesRequest_Query = Some qp\<rparr> ks1 stF = ((None, stF1), qF1)
      \<and> traces qF k = Some spans \<and> match_spans qp spans
      \<and> transport stF1 (sent stF1) \<lparr>SpansResponseChunk_Spans = spans\<rparr> = Some e
    \<longrightarrow> FindTraces_flat qF \<lparr>FindTracesRequest_Query = Some qp\<rparr> (ks1 @ k # ks2) stF
          = ((Some e, stF1), qF)
        \<and> prefix (sent stF) (sent stF1))
   \<and> (traces qO (GetTraceRequest_TraceId treq) = Some td0
      \<and> transport stO0 (sent stO0) td0 = Some e0
    \<longrightarrow> GetTrace_otlp qO treq stO0 = ((Some e0, stO0), qO))
   \<and> (FindTraces_otlp qO \<lparr>FindTracesRequest_Query = Some qp\<rparr> ks1 stO = ((None, stO1), qO1)
      \<and> traces qO k = Some td \<and> match_resource_spans qp (TracesData_ResourceSpans td)
      \<and> transport stO1 (sent stO1) td = Some e
    \<longrightarrow> FindTraces_otlp qO \<lparr>FindTracesRequest_Query = Some qp\<rparr> (ks1 @ k # ks2) stO
          = ((Some e, stO1), qO)
        \<and> prefix (sent stO) (sent stO1))"
proof (intro conjI impI)
  assume "traces qF (GetTraceRequest_TraceId treq) = Some spans0
      \<and> transport stF0 (sent stF0) \<lparr>SpansResponseChunk_Spans = spans0\<rparr> = Some e0"
  then show "GetTrace_flat qF treq stF0 = ((Some e0, stF0), qF)"
    by (simp add: GetTrace_flat_present Send_def)
next
  assume "traces qO (GetTraceRequest_TraceId treq) = Some td0
      \<and> transport stO0 (sent stO0) td0 = Some e0"
  then show "GetTrace_otlp qO treq stO0 = ((Some e0, stO0), qO)"
    by (simp add: GetTrace_otlp_present Send_def)
next
  assume h: "FindTraces_flat qF \<lparr>FindTracesRequest_Query = Some qp\<rparr> ks1 stF
        = ((None, stF1), qF1)
      \<and> traces qF k = Some spans \<and> match_spans qp spans
      \<and> transport stF1 (sent stF1) \<lparr>SpansResponseChunk_Spans = spans\<rparr> = Some e"
  let ?cs = "\<lambda>ks. map (\<lambda>kv. \<lparr>SpansResponseChunk_Spans = snd kv\<rparr>)
      (filter (\<lambda>kv. match_spans qp (snd kv)) (range_map ks (traces qF)))"
  from h have run: "send_all (?cs ks1) stF = (None, stF1)"
    by (auto simp: FindTraces_flat_def FindTraces_loop_flat_send_all)
  from h have cs: "?cs (ks1 @ k # ks2) = ?cs ks1 @ \<lparr>SpansResponseChunk_Spans = spans\<rparr> # ?cs ks2"
    by (simp add: range_map_append)
  from h have "send_all (?cs ks1 @ \<lparr>SpansResponseChunk_Spans = spans\<rparr> # ?cs ks2) stF
      = (Some e, stF1)"
    using send_all_abort [OF run] by blast
  then show "FindTraces_flat qF \<lparr>FindTracesRequest_Query = Some qp\<rparr> (ks1 @ k # ks2) stF
      = ((Some e, stF1), qF)"
    unfolding cs [symmetric] by (simp add: FindTraces_flat_def FindTraces_loop_flat_send_all)
  from send_all_ok [OF run] show "prefix (sent stF) (sent stF1)"
    by simp
next
  assume h: "FindTraces_otlp qO \<lparr>FindTracesRequest_Query = Some qp\<rparr> ks1 stO
        = ((None, stO1), qO1)
      \<and> traces qO k = Some td \<and> match_resource_spans qp (TracesData_ResourceSpans td)
      \<and> transport stO1 (sent stO1) td = Some e"
  let ?cs = "\<lambda>ks. map snd
      (filter (\<lambda>kv. match_resource_spans qp (TracesData_ResourceSpans (snd kv)))
         (range_map ks (traces qO)))"
  from h have run: "send_all (?cs ks1) stO = (None, stO1)"
    by (auto simp: FindTraces_otlp_def FindTraces_loop_otlp_send_all)
  from h have cs: "?cs (ks1 @ k # ks2) = ?cs ks1 @ td # ?cs ks2"
    by (simp add: range_map_append)
  from h have "send_all (?cs ks1 @ td # ?cs ks2) stO = (Some e, stO1)"
    using send_all_abort [OF run] by blast
  then show "FindTraces_otlp qO \<lparr>FindTracesRequest_Query = Some qp\<rparr> (ks1 @ k # ks2) stO
      = ((Some e, stO1), qO)"
    unfolding cs [symmetric] by (simp add: FindTraces_otlp_def FindTraces_loop_otlp_send_all)
  from send_all_ok [OF run] show "prefix (sent stO) (sent stO1)"
    by simp
qed


theorem Send_failure_aborts_and_propagates_witness:
  "traces demo3_flat id1 = Some example_trace1_flat
   \<and> transport (new_stream (fail_after 0)) (sent (new_stream (fail_after 0)))
        \<lparr>SpansResponseChunk_Spans = example_trace1_flat\<rparr> = Some closing
   \<and> fst (GetTrace_flat demo3_flat \<lparr>GetTraceRequest_TraceId = id1\<rparr> (new_stream (fail_after 0)))
       = (Some closing, new_stream (fail_after 0))
   \<and> fst (FindTraces_flat demo3_flat (find_request ''frontend'' []) [id1]
             (new_stream (fail_after 1)))
       = (None, \<lparr>sent = [\<lparr>SpansResponseChunk_Spans = example_trace1_flat\<rparr>],
                 transport = fail_after 1\<rparr>)
   \<and> match_spans (query ''frontend'' []) (the (traces demo3_flat id2))
   \<and> fst (FindTraces_flat demo3_flat (find_request ''frontend'' []) [id1, id2, id3]
             (new_stream (fail_after 1)))
       = (Some closing, \<lparr>sent = [\<lparr>SpansResponseChunk_Spans = example_trace1_flat\<rparr>],
                         transport = fail_after 1\<rparr>)
   \<and> traces demo3_otlp id3 = Some spanless_trace
   \<and> transport (new_stream (fail_after 0)) (sent (new_stream (fail_after 0))) spanless_trace
       = Some closing
   \<and> fst (GetTrace_otlp demo3_otlp \<lparr>GetTraceRequest_TraceId = id3\<rparr> (new_stream (fail_after 0)))
       = (Some closing, new_stream (fail_after 0))
   \<and> fst (FindTraces_otlp demo3_otlp (find_request ''frontend'' []) [id3]
             (new_stream (fail_after 1)))
       = (None, \<lparr>sent = [spanless_trace], transport = fail_after 1\<rparr>)
   \<and> match_resource_spans (query ''frontend'' [])
        (TracesData_ResourceSpans (the (traces demo3_otlp id2)))
   \<and> fst (FindTraces_otlp demo3_otlp (find_request ''frontend'' []) [id3, id2, id1]
             (new_stream (fail_after 1)))
       = (Some closing, \<lparr>sent = [spanless_trace], transport = fail_after 1\<rparr>)"
proof -
  let ?qp = "query ''frontend'' []"
  let ?req = "find_request ''frontend'' []"
  let ?ch = "\<lparr>SpansResponseChunk_Spans = example_trace1_flat\<rparr>"
  let ?sa = "new_stream (fail_after 0) :: SpansResponseChunk stream"
  let ?sb = "new_stream (fail_after 1) :: SpansResponseChunk stream"
  let ?sc = "\<lparr>sent = [?ch], transport = fail_after 1\<rparr>"
  let ?ua = "new_stream (fail_after 0) :: TracesData stream"
  let ?ub = "new_stream (fail_after 1) :: TracesData stream"
  let ?uc = "\<lparr>sent = [spanless_trace], transport = fail_after 1\<rparr>"
  let ?F = "FindTraces_flat demo3_flat ?req [id1] ?sb"
  let ?O = "FindTraces_otlp demo3_otlp ?req [id3] ?ub"
  have req: "?req = \<lparr>FindTracesRequest_Query = Some ?qp\<rparr>"
    by (simp add: find_request_def)
  have a1: "traces demo3_flat id1 = Some example_trace1_flat"
    by (simp add: demo_defs)
  have a2: "transport ?sa (sent ?sa) ?ch = Some closing"
    by (simp add: new_stream_def fail_after_def)
  have a3: "fst ?F = (None, ?sc)"
    by (simp add: demo_defs handler_defs)
  have a4: "traces demo3_flat id2 = Some (the (traces demo3_flat id2))"
    by (simp add: demo_defs)
  have a5: "match_spans ?qp (the (traces demo3_flat id2))"
    by (simp add: demo_defs)
  have a6: "transport ?sc (sent ?sc)
      \<lparr>SpansResponseChunk_Spans = the (traces demo3_flat id2)\<rparr> = Some closing"
    by (simp add: fail_after_def)
  have b1: "traces demo3_otlp id3 = Some spanless_trace"
    by (simp add: demo_defs)
  have b2: "transport ?ua (sent ?ua) spanless_trace = Some closing"
    by (simp add: new_stream_def fail_after_def)
  have b3: "fst ?O = (None, ?uc)"
    by (simp add: demo_defs handler_defs)
  have b4: "traces demo3_otlp id2 = Some (the (traces demo3_otlp id2))"
    by (simp add: demo_defs)
  have b5: "match_resource_spans ?qp (TracesData_ResourceSpans (the (traces demo3_otlp id2)))"
    by (simp add: demo_defs)
  have b6: "transport ?uc (sent ?uc) (the (traces demo3_otlp id2)) = Some closing"
    by (simp add: fail_after_def)
  from a3 have runF: "FindTraces_flat demo3_flat \<lparr>FindTracesRequest_Query = Some ?qp\<rparr> [id1] ?sb
      = ((None, ?sc), snd ?F)"
    unfolding req [symmetric] by (simp add: prod_eq_iff)
  from b3 have runO: "FindTraces_otlp demo3_otlp \<lparr>FindTracesRequest_Query = Some ?qp\<rparr> [id3] ?ub
      = ((None, ?uc), snd ?O)"
    unfolding req [symmetric] by (simp add: prod_eq_iff)
  note flat = Send_failure_aborts_and_propagates
    [of demo3_flat "\<lparr>GetTraceRequest_TraceId = id1\<rparr>" example_trace1_flat ?sa closing
        ?qp "[id1]" ?sb ?sc "snd ?F" id2 "the (traces demo3_flat id2)" closing "[id3]"]
  note otlp = Send_failure_aborts_and_propagates
    [of _ "\<lparr>GetTraceRequest_TraceId = id3\<rparr>" _ _ closing
        ?qp "[id3]" _ _ _ id2 _ closing "[id1]"
        demo3_otlp spanless_trace ?ua ?ub ?uc "snd ?O" "the (traces demo3_otlp id2)"]
  from flat a1 a2
  have c1: "GetTrace_flat demo3_flat \<lparr>GetTraceRequest_TraceId = id1\<rparr> ?sa
      = ((Some closing, ?sa), demo3_flat)"
    by simp
  from flat runF a4 a5 a6
  have c2: "FindTraces_flat demo3_flat \<lparr>FindTracesRequest_Query = Some ?qp\<rparr>
      ([id1] @ id2 # [id3]) ?sb = ((Some closing, ?sc), demo3_flat)"
    by blast
  from otlp b1 b2
  have d1: "GetTrace_otlp demo3_otlp \<lparr>GetTraceRequest_TraceId = id3\<rparr> ?ua
      = ((Some closing, ?ua), demo3_otlp)"
    by simp
  from otlp runO b4 b5 b6
  have d2: "FindTraces_otlp demo3_otlp \<lparr>FindTracesRequest_Query = Some ?qp\<rparr>
      ([id3] @ id2 # [id1]) ?ub = ((Some closing, ?uc), demo3_otlp)"
    by blast
  from c2 have c2': "fst (FindTraces_flat demo3_flat ?req [id1, id2, id3] ?sb)
      = (Some closing, ?sc)"
    unfolding req by simp
  from d2 have d2': "fst (FindTraces_otlp demo3_otlp ?req [id3, id2, id1] ?ub)
      = (Some closing, ?uc)"
    unfolding req by simp
  from c1 have c1': "fst (GetTrace_flat demo3_flat \<lparr>GetTraceRequest_TraceId = id1\<rparr> ?sa)
      = (Some closing, ?sa)"
    by simp
  from d1 have d1': "fst (GetTrace_otlp demo3_otlp \<lparr>GetTraceRequest_TraceId = id3\<rparr> ?ua)
      = (Some closing, ?ua)"
    by simp
  from a1 a2 c1' a3 a5 c2' b1 b2 d1' b3 b5 d2' show ?thesis
    by blast
qed

text \<open>
  C7. For every service name that the catalog does not hold, \<open>GetOperations\<close>
  returns a response, not an error, and the response lists no operation. This
  holds in both programs.
\<close>

theorem GetOperations_unknown_service_is_empty:
  "(operations q (GetOperationsRequest_Service req) = None \<longrightarrow>
      GetOperations_flat q req = (Inr \<lparr>GetOperationsResponse_Operations = []\<rparr>, q))
   \<and> (operations q (GetOperationsRequest_Service req) = None \<longrightarrow>
      GetOperations_otlp q req = (Inr \<lparr>GetOperationsResponse_Operations = []\<rparr>, q))"
  by (simp add: GetOperations_flat_def GetOperations_otlp_def)

theorem GetOperations_unknown_service_is_empty_witness:
  "operations demo_otlp ''billing'' = None
   \<and> GetOperations_flat demo_otlp
        \<lparr>GetOperationsRequest_Service = ''billing'', GetOperationsRequest_SpanKind = ''server''\<rparr>
       = (Inr \<lparr>GetOperationsResponse_Operations = []\<rparr>, demo_otlp)
   \<and> GetOperations_otlp demo_otlp
        \<lparr>GetOperationsRequest_Service = ''billing'', GetOperationsRequest_SpanKind = ''server''\<rparr>
       = (Inr \<lparr>GetOperationsResponse_Operations = []\<rparr>, demo_otlp)"
proof -
  have a: "operations demo_otlp ''billing'' = None" by (simp add: demo_defs)
  then show ?thesis
    using GetOperations_unknown_service_is_empty
      [of demo_otlp
          "\<lparr>GetOperationsRequest_Service = ''billing'', GetOperationsRequest_SpanKind = ''server''\<rparr>"]
    by simp
qed

text \<open>
  C8. After one or more writes under a trace identifier, the store holds the
  trace of the latest write alone: an identical repeated write changes nothing,
  a later write replaces an earlier one whole, and \<open>GetTrace\<close> on that
  identifier then sends exactly the trace last written (when the send
  succeeds). This holds in both programs.
\<close>

theorem Put_then_GetTrace_last_write_wins:
  "traces (Put traceID t (Put traceID t0 q)) traceID = Some t
   \<and> Put traceID t (Put traceID t q) = Put traceID t q
   \<and> Put traceID t (Put traceID t0 q) = Put traceID t q
   \<and> (transport stF (sent stF) \<lparr>SpansResponseChunk_Spans = spans\<rparr> = None \<longrightarrow>
        GetTrace_flat (Put traceID spans (Put traceID spans0 qF))
            \<lparr>GetTraceRequest_TraceId = traceID\<rparr> stF
          = ((None, stF\<lparr>sent := sent stF @ [\<lparr>SpansResponseChunk_Spans = spans\<rparr>]\<rparr>),
             Put traceID spans (Put traceID spans0 qF)))
   \<and> (transport stO (sent stO) td = None \<longrightarrow>
        GetTrace_otlp (Put traceID td (Put traceID td0 qO))
            \<lparr>GetTraceRequest_TraceId = traceID\<rparr> stO
          = ((None, stO\<lparr>sent := sent stO @ [td]\<rparr>), Put traceID td (Put traceID td0 qO)))"
proof -
  have 1: "traces (Put traceID x (Put traceID y r)) traceID = Some x" for x y :: 'b
    and r :: "'b QueryService"
    by (simp add: Put_def)
  have 2: "Put traceID x (Put traceID y r) = Put traceID x r" for x y :: 'b
    and r :: "'b QueryService"
    by (simp add: Put_def)
  have 3: "GetTrace_flat (Put traceID spans (Put traceID spans0 qF))
            \<lparr>GetTraceRequest_TraceId = traceID\<rparr> stF
          = ((None, stF\<lparr>sent := sent stF @ [\<lparr>SpansResponseChunk_Spans = spans\<rparr>]\<rparr>),
             Put traceID spans (Put traceID spans0 qF))"
    if "transport stF (sent stF) \<lparr>SpansResponseChunk_Spans = spans\<rparr> = None"
    using that GetTrace_flat_present [of "Put traceID spans (Put traceID spans0 qF)"
        "\<lparr>GetTraceRequest_TraceId = traceID\<rparr>" spans stF]
    by (simp add: 1 Send_def)
  have 4: "GetTrace_otlp (Put traceID td (Put traceID td0 qO))
            \<lparr>GetTraceRequest_TraceId = traceID\<rparr> stO
          = ((None, stO\<lparr>sent := sent stO @ [td]\<rparr>), Put traceID td (Put traceID td0 qO))"
    if "transport stO (sent stO) td = None"
    using that GetTrace_otlp_present [of "Put traceID td (Put traceID td0 qO)"
        "\<lparr>GetTraceRequest_TraceId = traceID\<rparr>" td stO]
    by (simp add: 1 Send_def)
  show ?thesis using 1 [of t t0 q] 2 [of t t q] 2 [of t t0 q] 3 4 by blast
qed

theorem Put_then_GetTrace_last_write_wins_witness:
  "transport (new_stream accept_all) (sent (new_stream accept_all)) spanless_trace = None
   \<and> transport (new_stream accept_all) (sent (new_stream accept_all))
        \<lparr>SpansResponseChunk_Spans = example_trace1_flat\<rparr> = None
   \<and> fst (GetTrace_flat (Put id1 example_trace1_flat (Put id1 [] demo_flat))
        \<lparr>GetTraceRequest_TraceId = id1\<rparr> (new_stream accept_all))
       = (None, \<lparr>sent = [\<lparr>SpansResponseChunk_Spans = example_trace1_flat\<rparr>], transport = accept_all\<rparr>)
   \<and> fst (GetTrace_otlp (Put id1 spanless_trace (Put id1 nil_resource_trace demo_otlp))
        \<lparr>GetTraceRequest_TraceId = id1\<rparr> (new_stream accept_all))
       = (None, \<lparr>sent = [spanless_trace], transport = accept_all\<rparr>)"
proof -
  let ?st = "new_stream accept_all"
  note main = Put_then_GetTrace_last_write_wins
    [of id1 spanless_trace nil_resource_trace demo_otlp
        "new_stream accept_all" example_trace1_flat "[]" demo_flat
        "new_stream accept_all" spanless_trace nil_resource_trace demo_otlp]
  have a: "transport ?st (sent ?st) spanless_trace = None"
    and b: "transport ?st (sent ?st) \<lparr>SpansResponseChunk_Spans = example_trace1_flat\<rparr> = None"
    by (simp_all add: new_stream_def accept_all_def)
  from main b
  have f: "GetTrace_flat (Put id1 example_trace1_flat (Put id1 [] demo_flat))
             \<lparr>GetTraceRequest_TraceId = id1\<rparr> ?st
           = ((None, ?st\<lparr>sent := sent ?st @ [\<lparr>SpansResponseChunk_Spans = example_trace1_flat\<rparr>]\<rparr>),
              Put id1 example_trace1_flat (Put id1 [] demo_flat))"
    by blast
  from main a
  have g: "GetTrace_otlp (Put id1 spanless_trace (Put id1 nil_resource_trace demo_otlp))
             \<lparr>GetTraceRequest_TraceId = id1\<rparr> ?st
           = ((None, ?st\<lparr>sent := sent ?st @ [spanless_trace]\<rparr>),
              Put id1 spanless_trace (Put id1 nil_resource_trace demo_otlp))"
    by blast
  show ?thesis
    unfolding f g using a b by (simp add: new_stream_def)
qed

text \<open>
  C9. Every query operation returns the service state that it was given: the
  traces map, the services list and the operations map after the call are those
  before it. This holds for \<open>GetTrace\<close>, \<open>FindTraces\<close>, \<open>GetServices\<close>,
  \<open>GetOperations\<close> and \<open>GetDependencies\<close>, in both programs.
\<close>

theorem queries_leave_the_state_unchanged:
  "snd (GetTrace_flat qF treq stF) = qF
   \<and> snd (FindTraces_flat qF freq ks stF) = qF
   \<and> snd (GetServices q) = q
   \<and> snd (GetOperations_flat q oreq) = q
   \<and> snd (GetDependencies q) = q
   \<and> snd (GetTrace_otlp qO treq stO) = qO
   \<and> snd (FindTraces_otlp qO freq ks stO) = qO
   \<and> snd (GetOperations_otlp q oreq) = q"
  by (simp add: handler_defs Let_def split: option.splits prod.splits)

text \<open>
  C10. In the flat program, for a service that the catalog holds and any span
  kind \<open>k\<close> in the request, \<open>GetOperations\<close> returns one operation for each
  stored name, in the stored order, and each carries the span kind \<open>k\<close> of the
  request.
\<close>

theorem GetOperations_flat_echoes_SpanKind:
  "operations q (GetOperationsRequest_Service req) = Some ops \<longrightarrow>
     (\<exists>result.
        fst (GetOperations_flat q req) = Inr \<lparr>GetOperationsResponse_Operations = result\<rparr>
        \<and> result = map (\<lambda>opName. \<lparr>Operation_Name = opName,
                                    Operation_SpanKind = GetOperationsRequest_SpanKind req\<rparr>) ops
        \<and> map Operation_Name result = ops
        \<and> (\<forall>op \<in> set result. Operation_SpanKind op = GetOperationsRequest_SpanKind req))"
  by (auto simp: GetOperations_flat_def foldl_append_singletons comp_def)

theorem GetOperations_flat_echoes_SpanKind_witness:
  "operations demo_flat ''auth-service'' = Some [''authenticate'', ''validate-token'', ''refresh-token'']
   \<and> fst (GetOperations_flat demo_flat
        \<lparr>GetOperationsRequest_Service = ''auth-service'', GetOperationsRequest_SpanKind = ''client''\<rparr>)
       = Inr \<lparr>GetOperationsResponse_Operations =
           [\<lparr>Operation_Name = ''authenticate'', Operation_SpanKind = ''client''\<rparr>,
            \<lparr>Operation_Name = ''validate-token'', Operation_SpanKind = ''client''\<rparr>,
            \<lparr>Operation_Name = ''refresh-token'', Operation_SpanKind = ''client''\<rparr>]\<rparr>"
proof -
  have a: "operations demo_flat ''auth-service''
             = Some [''authenticate'', ''validate-token'', ''refresh-token'']"
    by (simp add: demo_defs)
  then show ?thesis
    using GetOperations_flat_echoes_SpanKind
      [of demo_flat
          "\<lparr>GetOperationsRequest_Service = ''auth-service'', GetOperationsRequest_SpanKind = ''client''\<rparr>"
          "[''authenticate'', ''validate-token'', ''refresh-token'']"]
    by auto
qed


end
